theory Spec2Isabelle
  imports Main
begin

section \<open>The request-analytics plugin (analytics.go)\<close>

text \<open>
  The plugin wraps an HTTP handler.  For every request \<open>ServeHTTP\<close> calls the wrapped
  handler, builds a \<open>RequestData\<close> value and offers it to a buffered channel with a
  non-blocking send.  One goroutine, \<open>processingWorker\<close>, connects to the database,
  receives from the channel and inserts one row per value; when connecting fails it
  logs, sleeps five seconds and starts over.

  The embedding keeps the shared state in a record (\<open>system\<close>), makes every effect an
  entry of a trace, and gives the worker one transition per suspension point of the code.
  Outcomes the code cannot decide itself (what a database call returns, what the wrapped
  handler does) are arguments of the transitions.
\<close>

subsection \<open>Time\<close>

text \<open>
  \<open>time.Now\<close> records a reading of the clock and \<open>time.Since\<close> subtracts such a reading
  from the current one.  Readings and durations are counted in nanoseconds, as
  \<open>time.Duration\<close> does.  The readings are those of the monotonic clock of the process,
  which stay within 64 bits, so that the difference of two of them is exact.
\<close>

type_synonym time = int
type_synonym Duration = int

definition Second :: Duration where
  "Second = 1000000000"

definition Since :: "time \<Rightarrow> time \<Rightarrow> Duration" where
  "Since clock t = clock - t"

subsection \<open>Configuration\<close>

record Config =
  DatabaseDSN :: string

definition CreateConfig :: Config where
  "CreateConfig = \<lparr>DatabaseDSN = ''''\<rparr>"

subsection \<open>Requests and responses of the host\<close>

text \<open>
  Of \<open>http.Request\<close> the plugin reads the remote address, the header, the path of the
  URL, the method, the protocol, the host and the declared content length.
  \<open>Header.Get\<close> returns the first value stored under a key, or the empty string.
\<close>

type_synonym Header = "string \<rightharpoonup> string list"

definition Header_Get :: "Header \<Rightarrow> string \<Rightarrow> string" where
  "Header_Get h k = (case h k of None \<Rightarrow> '''' | Some [] \<Rightarrow> '''' | Some (v # _) \<Rightarrow> v)"

record Request =
  RemoteAddr :: string
  Header :: Header
  URL_Path :: string
  Method :: string
  Proto :: string
  Host :: string
  ContentLength :: int

definition Request_UserAgent :: "Request \<Rightarrow> string" where
  "Request_UserAgent r = Header_Get (Header r) ''User-Agent''"

definition Request_Referer :: "Request \<Rightarrow> string" where
  "Request_Referer r = Header_Get (Header r) ''Referer''"

record ResponseWriter =
  status :: nat
  body :: string

text \<open>
  The wrapped handler is code of the host.  It receives the response writer and the
  request (a pointer in Go, so it may change both) and takes time: given the clock at
  the call it returns the writer, the request and the clock at its return.  The handler
  is taken to return: were it to panic, the panic would leave \<open>ServeHTTP\<close> before
  anything is collected or sent.
\<close>

type_synonym Handler = "ResponseWriter \<Rightarrow> Request \<Rightarrow> time \<Rightarrow> ResponseWriter \<times> Request \<times> time"

subsection \<open>RequestData\<close>

text \<open>
  The content length is an \<open>int64\<close> that is only copied, from the request to the value
  and from the value to the statement.
\<close>

record RequestData =
  IP :: string
  UserAgent :: string
  Path :: string
  Time :: time
  Method :: string
  Protocol :: string
  Host :: string
  AcceptLanguage :: string
  Referer :: string
  ContentType :: string
  ContentLength :: int
  ResponseTime :: Duration

subsection \<open>The buffered channel\<close>

text \<open>
  A buffered channel of Go: a buffer in arrival order, its capacity, and whether the
  channel has been closed.  A send is ready when the buffer has room, a receive when
  the buffer holds a value; a send on a closed channel panics, a receive from a closed
  and empty channel ends a \<open>range\<close> loop.
\<close>

record chan =
  buf :: "RequestData list"
  cap :: nat
  closed :: bool

datatype 'a comm = Ready 'a | WouldBlock | ClosedChan

definition make_chan :: "nat \<Rightarrow> chan" where
  "make_chan n = \<lparr>buf = [], cap = n, closed = False\<rparr>"

definition chan_send :: "chan \<Rightarrow> RequestData \<Rightarrow> chan comm" where
  "chan_send c x =
     (if closed c then ClosedChan
      else if length (buf c) < cap c then Ready (c\<lparr>buf := buf c @ [x]\<rparr>)
      else WouldBlock)"

definition chan_recv :: "chan \<Rightarrow> (RequestData \<times> chan) comm" where
  "chan_recv c =
     (case buf c of
        x # xs \<Rightarrow> Ready (x, c\<lparr>buf := xs\<rparr>)
      | [] \<Rightarrow> if closed c then ClosedChan else WouldBlock)"

subsection \<open>The database\<close>

text \<open>
  An \<open>error\<close> of a database call carries its message and whether it reports a lost
  connection or a rejected row.
\<close>

datatype err_class = Connectivity | RowLevel

datatype error = Err err_class string

fun Error :: "error \<Rightarrow> string" where
  "Error (Err _ m) = m"

text \<open>
  \<open>stmt.Exec\<close> is called with the twelve fields of the value.  Package \<open>database/sql\<close>
  hands the driver a string as a string, a \<open>time.Time\<close> as a time, and an \<open>int64\<close> as
  an \<open>int64\<close>; a \<open>time.Duration\<close> is an \<open>int64\<close> by kind, so \<open>ResponseTime\<close> reaches the
  driver as its count of nanoseconds.
\<close>

datatype driver_value = String_value string | Time_value time | Int64_value int

definition exec_args :: "RequestData \<Rightarrow> driver_value list" where
  "exec_args data =
     [String_value (IP data), String_value (UserAgent data), String_value (Path data),
      Time_value (Time data),
      String_value (RequestData.Method data), String_value (Protocol data),
      String_value (RequestData.Host data),
      String_value (AcceptLanguage data), String_value (Referer data),
      String_value (ContentType data),
      Int64_value (RequestData.ContentLength data), Int64_value (ResponseTime data)]"

text \<open>
  The statement of \<open>runWorker\<close> names twelve columns and binds the placeholders \<open>$1\<close> to
  \<open>$12\<close> to them in order: each column receives the argument its placeholder selects.
\<close>

definition insert_columns :: "string list" where
  "insert_columns =
     [''ip'', ''user_agent'', ''path'', ''request_time'', ''method'', ''protocol'', ''host'',
      ''accept_language'', ''referer'', ''content_type'', ''content_length'', ''response_time'']"

definition insert_placeholders :: "nat list" where
  "insert_placeholders = [1, 2, 3, 4, 5, 6, 7, 8, 9, 10, 11, 12]"

definition bind_args :: "driver_value list \<Rightarrow> (string \<times> driver_value) list" where
  "bind_args args = map (\<lambda>(c, i). (c, args ! (i - 1))) (zip insert_columns insert_placeholders)"

text \<open>
  The table is the one the schema of the repository creates: each column with its type
  and whether it is declared \<open>NOT NULL\<close>.  The column \<open>id\<close> is filled by the server.
\<close>

datatype column_type = SERIAL | INET | TEXT | TIMESTAMPTZ | VARCHAR nat | BIGINT | INTERVAL

definition request_logs_table :: "(string \<times> column_type \<times> bool) list" where
  "request_logs_table =
     [(''id'', SERIAL, True),
      (''ip'', INET, True),
      (''user_agent'', TEXT, False),
      (''path'', TEXT, True),
      (''request_time'', TIMESTAMPTZ, True),
      (''method'', VARCHAR 10, True),
      (''protocol'', VARCHAR 10, True),
      (''host'', TEXT, True),
      (''accept_language'', TEXT, False),
      (''referer'', TEXT, False),
      (''content_type'', TEXT, False),
      (''content_length'', BIGINT, False),
      (''response_time'', INTERVAL, True)]"

text \<open>
  A stored row gives a value to each column of the statement.  An interval is kept as a
  duration in nanoseconds, the unit of \<open>ResponseTime\<close>.
\<close>

datatype sql_value = Inet string | Text string | Timestamp time | BigInt int | Interval Duration

type_synonym row = "(string \<times> sql_value) list"

text \<open>
  The server is PostgreSQL, reached through the driver \<open>lib/pq\<close>; neither is code of the
  repository.  The server reads each argument as a value of the type of its column, and
  what follows is its documented reading of the arguments this statement sends.

  \<^item> An address for \<open>INET\<close> is written with hexadecimal digits, dots, colons and a slash,
    and it holds no colon (IPv4) or at least two (IPv6).  So the empty text, a text with
    any other character, and a text with exactly one colon are refused; the letter \<open>x\<close>
    is let through, to refuse no more than the server does.  Whether some other text is
    an address is left to the environment (\<open>exec_result\<close> below).
  \<^item> \<open>TEXT\<close> takes a string as it is.
  \<^item> \<open>VARCHAR(n)\<close> takes a string of at most \<open>n\<close> characters; of a longer one it drops
    the characters beyond the \<open>n\<close>th when they are all spaces, and refuses it otherwise.
    The characters are those of UTF-8 text.
  \<^item> \<open>TIMESTAMPTZ\<close> takes an instant; the column keeps microseconds, and the instant is
    kept here as it was sent.
  \<^item> \<open>BIGINT\<close> takes an \<open>int64\<close>.
  \<^item> \<open>INTERVAL\<close> reads a number that comes without a unit as a number of seconds.

  No argument is null, so \<open>NOT NULL\<close> never refuses a row.  The statement produces no
  other pair of column type and argument; such a pair is refused.
\<close>

definition inet_chars :: string where
  "inet_chars = ''0123456789abcdefABCDEFxX.:/''"

definition inet_refused :: "string \<Rightarrow> bool" where
  "inet_refused s \<longleftrightarrow>
     s = [] \<or> list_ex (\<lambda>c. c \<notin> set inet_chars) s \<or> count_list s (CHR '':'') = 1"

definition utf8_length :: "string \<Rightarrow> nat" where
  "utf8_length s = length (filter (\<lambda>c. \<not> (digit7 c \<and> \<not> digit6 c)) s)"

definition strip_spaces :: "string \<Rightarrow> string" where
  "strip_spaces s = rev (dropWhile (\<lambda>c. c = CHR '' '') (rev s))"

fun decimal :: "nat \<Rightarrow> string" where
  "decimal n =
     (if n < 10 then [''0123456789'' ! n]
      else decimal (n div 10) @ [''0123456789'' ! (n mod 10)])"

declare decimal.simps [simp del]

fun server_reads :: "column_type \<Rightarrow> driver_value \<Rightarrow> error + sql_value" where
  "server_reads INET (String_value s) =
     (if inet_refused s
      then Inl (Err RowLevel (''pq: invalid input syntax for type inet: '' @ [CHR 0x22] @ s @ [CHR 0x22]))
      else Inr (Inet s))"
| "server_reads TEXT (String_value s) = Inr (Text s)"
| "server_reads (VARCHAR n) (String_value s) =
     (if n < utf8_length (strip_spaces s)
      then Inl (Err RowLevel (''pq: value too long for type character varying('' @ decimal n @ '')''))
      else if n < utf8_length s
      then Inr (Text (strip_spaces s @ replicate (n - utf8_length (strip_spaces s)) (CHR '' '')))
      else Inr (Text s))"
| "server_reads TIMESTAMPTZ (Time_value t) = Inr (Timestamp t)"
| "server_reads BIGINT (Int64_value n) = Inr (BigInt n)"
| "server_reads INTERVAL (Int64_value n) = Inr (Interval (n * Second))"
| "server_reads _ _ = Inl (Err RowLevel ''pq: unsupported argument'')"

fun server_insert :: "(string \<times> driver_value) list \<Rightarrow> error + row" where
  "server_insert [] = Inr []"
| "server_insert ((c, v) # bs) =
     (case map_of request_logs_table c of
        None \<Rightarrow> Inl (Err RowLevel (''pq: column '' @ c @ '' does not exist''))
      | Some (ty, _) \<Rightarrow>
          (case server_reads ty v of
             Inl e \<Rightarrow> Inl e
           | Inr x \<Rightarrow>
               (case server_insert bs of
                  Inl e \<Rightarrow> Inl e
                | Inr r \<Rightarrow> Inr ((c, x) # r))))"

text \<open>
  What a call of the database returns is otherwise the choice of the environment:
  \<open>open_result\<close>, \<open>ping_result\<close> and \<open>prepare_result\<close> for the three calls that set up the
  connection, and \<open>exec_result\<close> for an error of \<open>Exec\<close> that does not come from the
  reading above, such as a lost connection or a refusal by the server for another
  reason.  Without such an error, \<open>Exec\<close> returns what the server makes of the arguments.
\<close>

record sql_env =
  open_result :: "error option"
  ping_result :: "error option"
  prepare_result :: "error option"
  exec_result :: "error option"

definition stmt_Exec :: "sql_env \<Rightarrow> driver_value list \<Rightarrow> error + row" where
  "stmt_Exec env args =
     (case exec_result env of
        Some e \<Rightarrow> Inl e
      | None \<Rightarrow> server_insert (bind_args args))"

subsection \<open>The state\<close>

datatype event =
    Go_processingWorker
  | Call_next
  | Log string
  | Sleep Duration
  | Sql_Open string string
  | DB_Ping
  | DB_Prepare
  | Stmt_Exec "driver_value list"
  | Stmt_Close
  | DB_Close

text \<open>
  The worker is at one of three places: about to call \<open>runWorker\<close> (\<open>Connecting\<close>),
  inside the \<open>range\<close> loop (\<open>Draining\<close>), or about to sleep after an error (\<open>Backoff\<close>).
\<close>

datatype worker_state = Connecting | Draining | Backoff

record world =
  now :: time
  request_logs :: "row list"
  trace :: "event list"

record system = world +
  dataChan :: chan
  worker :: worker_state
  db_open :: bool
  stmt_open :: bool

record Analytics =
  next_handler :: Handler
  name :: string
  config :: Config

datatype panic = Send_on_closed_channel

subsection \<open>New\<close>

text \<open>
  \<open>New\<close> is given the configuration the host filled in, starting from \<open>CreateConfig\<close>,
  and the state of the world around the plugin.  The context it also receives is not
  used.
\<close>

definition New :: "Handler \<Rightarrow> Config \<Rightarrow> string \<Rightarrow> world \<Rightarrow> string + (Analytics \<times> system)" where
  "New nxt cfg nm w =
     (if DatabaseDSN cfg = '''' then Inl ''DatabaseDSN is required''
      else Inr (\<lparr>next_handler = nxt, name = nm, config = cfg\<rparr>,
                \<lparr>now = now w, request_logs = request_logs w,
                 trace = trace w @ [Go_processingWorker],
                 dataChan = make_chan 1000, worker = Connecting,
                 db_open = False, stmt_open = False\<rparr>))"

subsection \<open>ServeHTTP\<close>

definition collect :: "Request \<Rightarrow> time \<Rightarrow> time \<Rightarrow> RequestData" where
  "collect req start clock =
     \<lparr>IP = RemoteAddr req,
      UserAgent = Request_UserAgent req,
      Path = URL_Path req,
      Time = start,
      Method = Request.Method req,
      Protocol = Proto req,
      Host = Request.Host req,
      AcceptLanguage = Header_Get (Header req) ''Accept-Language'',
      Referer = Request_Referer req,
      ContentType = Header_Get (Header req) ''Content-Type'',
      ContentLength = Request.ContentLength req,
      ResponseTime = Since clock start\<rparr>"

definition ServeHTTP ::
    "Analytics \<Rightarrow> ResponseWriter \<Rightarrow> Request \<Rightarrow> system \<Rightarrow> panic + (ResponseWriter \<times> Request \<times> system)" where
  "ServeHTTP a rw req s =
     (let start = now s;
          (rw', req', clock) = next_handler a rw req start;
          s1 = s\<lparr>now := clock, trace := trace s @ [Call_next]\<rparr>;
          data = collect req' start (now s1)
      in case chan_send (dataChan s1) data of
           Ready c \<Rightarrow> Inr (rw', req', s1\<lparr>dataChan := c\<rparr>)
         | WouldBlock \<Rightarrow>
             Inr (rw', req', s1\<lparr>trace := trace s1 @ [Log ''Analytics channel full, discarding data'']\<rparr>)
         | ClosedChan \<Rightarrow> Inl Send_on_closed_channel)"

subsection \<open>The worker\<close>

text \<open>
  \<open>connect\<close> is \<open>runWorker\<close> up to its loop: it returns the error \<open>runWorker\<close> returns
  there, or nothing when the statement is prepared.  The deferred \<open>db.Close\<close> runs on
  the two returns that follow it.
\<close>

definition connect :: "Analytics \<Rightarrow> sql_env \<Rightarrow> system \<Rightarrow> string option \<times> system" where
  "connect a env s =
     (let s1 = s\<lparr>trace := trace s @ [Sql_Open ''postgres'' (DatabaseDSN (config a))]\<rparr> in
      case open_result env of
        Some e \<Rightarrow> (Some (''failed to connect to database: '' @ Error e), s1)
      | None \<Rightarrow>
          (let s2 = s1\<lparr>db_open := True, trace := trace s1 @ [DB_Ping]\<rparr> in
           case ping_result env of
             Some e \<Rightarrow>
               (Some (''failed to ping database: '' @ Error e),
                s2\<lparr>db_open := False, trace := trace s2 @ [DB_Close]\<rparr>)
           | None \<Rightarrow>
               (let s3 = s2\<lparr>trace := trace s2 @ [DB_Prepare]\<rparr> in
                case prepare_result env of
                  Some e \<Rightarrow>
                    (Some (''failed to prepare statement: '' @ Error e),
                     s3\<lparr>db_open := False, trace := trace s3 @ [DB_Close]\<rparr>)
                | None \<Rightarrow> (None, s3\<lparr>stmt_open := True\<rparr>))))"

text \<open>
  One pass of the \<open>range\<close> loop for a received value: execute the statement; on an error
  log it and go on.  The table gains the row the server stored, if it stored one.
\<close>

definition insert_data :: "sql_env \<Rightarrow> RequestData \<Rightarrow> system \<Rightarrow> system" where
  "insert_data env data s =
     (let s1 = s\<lparr>trace := trace s @ [Stmt_Exec (exec_args data)]\<rparr> in
      case stmt_Exec env (exec_args data) of
        Inr r \<Rightarrow> s1\<lparr>request_logs := request_logs s1 @ [r]\<rparr>
      | Inl e \<Rightarrow> s1\<lparr>trace := trace s1 @ [Log (''Failed to insert data: '' @ Error e)]\<rparr>)"

text \<open>
  A transition of the worker; \<open>None\<close> when it is suspended in the receive.  From
  \<open>Connecting\<close> it runs \<open>connect\<close>; an error is logged by \<open>processingWorker\<close>, which then
  sleeps.  From \<open>Draining\<close> it receives: a value is inserted, and a closed and empty
  channel ends the loop, so that \<open>runWorker\<close> returns \<open>nil\<close> after the deferred closes
  and \<open>processingWorker\<close> calls it again at once.
\<close>

definition worker_step :: "Analytics \<Rightarrow> sql_env \<Rightarrow> system \<Rightarrow> system option" where
  "worker_step a env s =
     (case worker s of
        Connecting \<Rightarrow>
          (case connect a env s of
             (Some err, s') \<Rightarrow>
               Some (s'\<lparr>trace := trace s' @ [Log (''Worker encountered an error: '' @ err)],
                        worker := Backoff\<rparr>)
           | (None, s') \<Rightarrow> Some (s'\<lparr>worker := Draining\<rparr>))
      | Backoff \<Rightarrow>
          Some (s\<lparr>trace := trace s @ [Sleep (5 * Second)], now := now s + 5 * Second,
                  worker := Connecting\<rparr>)
      | Draining \<Rightarrow>
          (case chan_recv (dataChan s) of
             Ready (data, c) \<Rightarrow> Some (insert_data env data (s\<lparr>dataChan := c\<rparr>))
           | WouldBlock \<Rightarrow> None
           | ClosedChan \<Rightarrow>
               Some (s\<lparr>trace := trace s @ [Stmt_Close, DB_Close], stmt_open := False,
                       db_open := False, worker := Connecting\<rparr>)))"

text \<open>Several transitions of the worker in a row, one outcome of the environment each.\<close>

fun worker_steps :: "Analytics \<Rightarrow> sql_env list \<Rightarrow> system \<Rightarrow> system option" where
  "worker_steps a [] s = Some s"
| "worker_steps a (env # envs) s =
     (case worker_step a env s of None \<Rightarrow> None | Some s' \<Rightarrow> worker_steps a envs s')"

subsection \<open>Schedules\<close>

text \<open>
  The goroutines of the program are the requests being served and the worker.  A
  schedule lists, in the order they happen, the calls of \<open>ServeHTTP\<close> and the transitions
  of the worker; a worker chosen while it is suspended stays where it is.  A call of
  \<open>ServeHTTP\<close> is taken as one step, so the queue a request meets is the queue at that
  step.
\<close>

datatype action = Serve ResponseWriter Request | Work sql_env

fun run :: "Analytics \<Rightarrow> action list \<Rightarrow> system \<Rightarrow> panic + system" where
  "run a [] s = Inr s"
| "run a (Serve rw req # acts) s =
     (case ServeHTTP a rw req s of Inl p \<Rightarrow> Inl p | Inr (_, _, s') \<Rightarrow> run a acts s')"
| "run a (Work env # acts) s =
     (case worker_step a env s of None \<Rightarrow> run a acts s | Some s' \<Rightarrow> run a acts s')"

text \<open>
  Non-blocking sends and receives on a channel in any order, with the values the channel
  accepted and the values it delivered.
\<close>

datatype chan_op = Try_send RequestData | Receive

fun chan_run :: "chan \<Rightarrow> chan_op list \<Rightarrow> RequestData list \<times> RequestData list \<times> chan" where
  "chan_run c [] = ([], [], c)"
| "chan_run c (Try_send x # ops) =
     (case chan_send c x of
        Ready c' \<Rightarrow> (case chan_run c' ops of (acc, del, c'') \<Rightarrow> (x # acc, del, c''))
      | _ \<Rightarrow> chan_run c ops)"
| "chan_run c (Receive # ops) =
     (case chan_recv c of
        Ready (x, c') \<Rightarrow> (case chan_run c' ops of (acc, del, c'') \<Rightarrow> (acc, x # del, c''))
      | _ \<Rightarrow> chan_run c ops)"

subsection \<open>Reading traces\<close>

fun is_storage_io :: "event \<Rightarrow> bool" where
  "is_storage_io (Sql_Open _ _) = True"
| "is_storage_io DB_Ping = True"
| "is_storage_io DB_Prepare = True"
| "is_storage_io (Stmt_Exec _) = True"
| "is_storage_io Stmt_Close = True"
| "is_storage_io DB_Close = True"
| "is_storage_io _ = False"



fun is_Open_or_Sleep :: "event \<Rightarrow> bool" where
  "is_Open_or_Sleep (Sql_Open _ _) = True"
| "is_Open_or_Sleep (Sleep _) = True"
| "is_Open_or_Sleep _ = False"

fun is_worker_error :: "event \<Rightarrow> bool" where
  "is_worker_error (Log m) =
     (take (length ''Worker encountered an error: '') m = ''Worker encountered an error: '')"
| "is_worker_error _ = False"

text \<open>Establishing the connection fails when one of its three calls returns an error.\<close>

definition connect_fails :: "sql_env \<Rightarrow> bool" where
  "connect_fails env =
     (open_result env \<noteq> None \<or> ping_result env \<noteq> None \<or> prepare_result env \<noteq> None)"

text \<open>
  What holds of every state the program reaches: the channel is open, the statement has
  been closed as often as it had been when the plugin was made, and a draining worker
  holds an open connection with a prepared statement.
\<close>

definition drain_inv :: "event list \<Rightarrow> system \<Rightarrow> bool" where
  "drain_inv tr s \<longleftrightarrow>
     \<not> closed (dataChan s) \<and>
     filter (\<lambda>e. e = Stmt_Close) (trace s) = tr \<and>
     (worker s = Draining \<longrightarrow> db_open s \<and> stmt_open s)"

subsection \<open>Sample values\<close>

definition sample_handler :: Handler where
  "sample_handler rw req t = (rw\<lparr>status := 200, body := ''ok''\<rparr>, req, t + 12000000)"

definition sample_config :: Config where
  "sample_config = \<lparr>DatabaseDSN = ''postgres://analytics@db/logs''\<rparr>"

definition sample_world :: world where
  "sample_world = \<lparr>now = 0, request_logs = [], trace = []\<rparr>"

definition sample_writer :: ResponseWriter where
  "sample_writer = \<lparr>status = 0, body = ''''\<rparr>"

definition sample_request :: Request where
  "sample_request =
     \<lparr>RemoteAddr = ''10.0.0.1:4711'',
      Header = [''User-Agent'' \<mapsto> [''curl/8.0''], ''Accept-Language'' \<mapsto> [''en'', ''de'']],
      URL_Path = ''/health'',
      Request.Method = ''GET'',
      Proto = ''HTTP/1.1'',
      Request.Host = ''example.org'',
      Request.ContentLength = - 1\<rparr>"

definition sample_data :: RequestData where
  "sample_data =
     \<lparr>IP = ''10.0.0.1:4711'', UserAgent = ''curl/8.0'', Path = ''/health'', Time = 0,
      Method = ''GET'', Protocol = ''HTTP/1.1'', Host = ''example.org'',
      AcceptLanguage = ''en'', Referer = '''', ContentType = '''', ContentLength = - 1,
      ResponseTime = 12000000\<rparr>"

definition sample_analytics :: Analytics where
  "sample_analytics =
     \<lparr>next_handler = sample_handler, name = ''analytics'', config = sample_config\<rparr>"

definition sample_system :: "RequestData list \<Rightarrow> worker_state \<Rightarrow> system" where
  "sample_system q st =
     \<lparr>now = 0, request_logs = [], trace = [Go_processingWorker],
      dataChan = \<lparr>buf = q, cap = 1000, closed = False\<rparr>, worker = st,
      db_open = (st = Draining), stmt_open = (st = Draining)\<rparr>"

definition env_ok :: sql_env where
  "env_ok = \<lparr>open_result = None, ping_result = None, prepare_result = None, exec_result = None\<rparr>"

definition env_open_fails :: sql_env where
  "env_open_fails = env_ok\<lparr>open_result := Some (Err Connectivity ''connection refused'')\<rparr>"

definition env_ping_fails :: sql_env where
  "env_ping_fails = env_ok\<lparr>ping_result := Some (Err Connectivity ''timeout'')\<rparr>"


definition env_conn_lost :: sql_env where
  "env_conn_lost = env_ok\<lparr>exec_result := Some (Err Connectivity ''connection reset by peer'')\<rparr>"

section \<open>Properties\<close>

subsection \<open>Construction\<close>

text \<open>
  Claim C9.  \<open>New\<close> returns an error exactly when the configured \<open>DatabaseDSN\<close> is empty.
  With a non-empty one it returns the handler holding the wrapped handler, the name and
  the configuration, and its one effect is to start \<open>processingWorker\<close> once: the worker
  is about to connect, the channel is empty with capacity 1000, nothing is open.
\<close>

theorem New_fails_iff_DatabaseDSN_empty:
  "((\<exists>e. New nxt cfg nm w = Inl e) \<longleftrightarrow> DatabaseDSN cfg = '''') \<and>
   (DatabaseDSN cfg \<noteq> '''' \<longrightarrow>
      (\<exists>s. New nxt cfg nm w = Inr (\<lparr>next_handler = nxt, name = nm, config = cfg\<rparr>, s) \<and>
           trace s = trace w @ [Go_processingWorker] \<and>
           worker s = Connecting \<and>
           dataChan s = make_chan 1000 \<and>
           request_logs s = request_logs w \<and> \<not> db_open s \<and> \<not> stmt_open s))"
  by (simp add: New_def)

theorem New_fails_iff_DatabaseDSN_empty_witness:
  "DatabaseDSN sample_config \<noteq> '''' \<and>
   DatabaseDSN CreateConfig = '''' \<and>
   (\<exists>e. New sample_handler CreateConfig ''analytics'' sample_world = Inl e) \<and>
   (\<exists>s. New sample_handler sample_config ''analytics'' sample_world = Inr (sample_analytics, s) \<and>
        trace s = [Go_processingWorker] \<and> worker s = Connecting)"
  using New_fails_iff_DatabaseDSN_empty [of sample_handler sample_config "''analytics''" sample_world]
    New_fails_iff_DatabaseDSN_empty [of sample_handler CreateConfig "''analytics''" sample_world]
  by (auto simp: sample_config_def sample_world_def sample_analytics_def CreateConfig_def)

subsection \<open>The request path\<close>

text \<open>
  Claim C1.  A call of \<open>ServeHTTP\<close> on the open channel always returns, with the writer
  and the request as the wrapped handler left them.  When the buffer has room the value
  built for the request is appended to it and nothing is logged.  When the buffer is at
  capacity the value is dropped: the channel is as it was, and the one event added after
  the call of the wrapped handler is the log line \<open>Analytics channel full, discarding data\<close>.
\<close>

theorem ServeHTTP_send_never_blocks:
  assumes "\<not> closed (dataChan s)"
    and "next_handler a rw req (now s) = (rw', req', clock)"
  shows "(length (buf (dataChan s)) < cap (dataChan s) \<longrightarrow>
            ServeHTTP a rw req s =
              Inr (rw', req',
                   s\<lparr>now := clock, trace := trace s @ [Call_next],
                     dataChan := (dataChan s)\<lparr>buf := buf (dataChan s) @ [collect req' (now s) clock]\<rparr>\<rparr>)) \<and>
         (cap (dataChan s) \<le> length (buf (dataChan s)) \<longrightarrow>
            ServeHTTP a rw req s =
              Inr (rw', req',
                   s\<lparr>now := clock,
                     trace := trace s @ [Call_next, Log ''Analytics channel full, discarding data'']\<rparr>))"
  using assms by (simp add: ServeHTTP_def chan_send_def Let_def)

theorem ServeHTTP_send_never_blocks_witness:
  "\<not> closed (dataChan (sample_system [] Draining)) \<and>
   length (buf (dataChan (sample_system [] Draining))) < cap (dataChan (sample_system [] Draining)) \<and>
   ServeHTTP sample_analytics sample_writer sample_request (sample_system [] Draining) =
     Inr (\<lparr>status = 200, body = ''ok''\<rparr>, sample_request,
          (sample_system [] Draining)
            \<lparr>now := 12000000, trace := [Go_processingWorker, Call_next],
             dataChan := \<lparr>buf = [sample_data], cap = 1000, closed = False\<rparr>\<rparr>) \<and>
   cap (dataChan (sample_system (replicate 1000 sample_data) Draining))
     \<le> length (buf (dataChan (sample_system (replicate 1000 sample_data) Draining))) \<and>
   ServeHTTP sample_analytics sample_writer sample_request
       (sample_system (replicate 1000 sample_data) Draining) =
     Inr (\<lparr>status = 200, body = ''ok''\<rparr>, sample_request,
          (sample_system (replicate 1000 sample_data) Draining)
            \<lparr>now := 12000000,
             trace := [Go_processingWorker, Call_next, Log ''Analytics channel full, discarding data'']\<rparr>)"
  using ServeHTTP_send_never_blocks [where s = "sample_system [] Draining" and a = sample_analytics
      and rw = sample_writer and req = sample_request and rw' = "\<lparr>status = 200, body = ''ok''\<rparr>"
      and req' = sample_request and clock = 12000000]
    ServeHTTP_send_never_blocks [where s = "sample_system (replicate 1000 sample_data) Draining"
      and a = sample_analytics
      and rw = sample_writer and req = sample_request and rw' = "\<lparr>status = 200, body = ''ok''\<rparr>"
      and req' = sample_request and clock = 12000000]
  by (simp add: sample_system_def sample_analytics_def sample_handler_def sample_writer_def
      collect_def sample_request_def sample_data_def Request_UserAgent_def Request_Referer_def
      Header_Get_def Since_def)

text \<open>
  Claim C6.  The value offered to the channel has its \<open>Time\<close> equal to the clock read
  before the wrapped handler was called, its \<open>ResponseTime\<close> equal to the clock at the
  handler's return minus that reading, which is not negative when the clock has not
  gone back, and its other ten fields read from the request.  The buffer gains this
  value when it has room and is unchanged otherwise, so no other value is ever enqueued.
\<close>

theorem ServeHTTP_builds_record:
  assumes "\<not> closed (dataChan s)"
    and "next_handler a rw req (now s) = (rw', req', clock)"
    and "now s \<le> clock"
  shows "\<exists>s' d. ServeHTTP a rw req s = Inr (rw', req', s') \<and>
           d = \<lparr>IP = RemoteAddr req',
                UserAgent = Header_Get (Header req') ''User-Agent'',
                Path = URL_Path req',
                Time = now s,
                Method = Request.Method req',
                Protocol = Proto req',
                Host = Request.Host req',
                AcceptLanguage = Header_Get (Header req') ''Accept-Language'',
                Referer = Header_Get (Header req') ''Referer'',
                ContentType = Header_Get (Header req') ''Content-Type'',
                ContentLength = Request.ContentLength req',
                ResponseTime = clock - now s\<rparr> \<and>
           0 \<le> ResponseTime d \<and>
           buf (dataChan s') =
             (if length (buf (dataChan s)) < cap (dataChan s)
              then buf (dataChan s) @ [d] else buf (dataChan s))"
  using assms
  by (simp add: ServeHTTP_def chan_send_def collect_def Since_def Let_def
      Request_UserAgent_def Request_Referer_def)

theorem ServeHTTP_builds_record_witness:
  "\<not> closed (dataChan (sample_system [] Connecting)) \<and>
   now (sample_system [] Connecting) \<le> 12000000 \<and>
   (\<exists>s'. ServeHTTP sample_analytics sample_writer sample_request (sample_system [] Connecting) =
           Inr (\<lparr>status = 200, body = ''ok''\<rparr>, sample_request, s') \<and>
         buf (dataChan s') =
           [\<lparr>IP = ''10.0.0.1:4711'', UserAgent = ''curl/8.0'', Path = ''/health'', Time = 0,
             Method = ''GET'', Protocol = ''HTTP/1.1'', Host = ''example.org'',
             AcceptLanguage = ''en'', Referer = '''', ContentType = '''', ContentLength = - 1,
             ResponseTime = 12000000\<rparr>])"
  using ServeHTTP_builds_record [where s = "sample_system [] Connecting" and a = sample_analytics
      and rw = sample_writer and req = sample_request and rw' = "\<lparr>status = 200, body = ''ok''\<rparr>"
      and req' = sample_request and clock = 12000000]
  by (auto simp: sample_system_def sample_analytics_def sample_handler_def sample_writer_def
      sample_request_def Header_Get_def)

text \<open>
  Claim C7.  \<open>ServeHTTP\<close> calls the wrapped handler once and returns the writer and the
  request exactly as that call left them.  None of the events it adds is a database
  call, and the table, the connection, the statement and the worker are as before.
\<close>

theorem ServeHTTP_calls_next_once:
  assumes "\<not> closed (dataChan s)"
    and "next_handler a rw req (now s) = (rw', req', clock)"
  shows "\<exists>s' evs. ServeHTTP a rw req s = Inr (rw', req', s') \<and>
           trace s' = trace s @ evs \<and>
           length (filter (\<lambda>e. e = Call_next) evs) = 1 \<and>
           filter is_storage_io evs = [] \<and>
           request_logs s' = request_logs s \<and>
           db_open s' = db_open s \<and> stmt_open s' = stmt_open s \<and>
           worker s' = worker s"
  using assms
  by (cases "length (buf (dataChan s)) < cap (dataChan s)")
     (simp_all add: ServeHTTP_def chan_send_def Let_def)

theorem ServeHTTP_calls_next_once_witness:
  "\<not> closed (dataChan (sample_system [sample_data] Backoff)) \<and>
   next_handler sample_analytics sample_writer sample_request (now (sample_system [sample_data] Backoff)) =
     (\<lparr>status = 200, body = ''ok''\<rparr>, sample_request, 12000000) \<and>
   (\<exists>s'. ServeHTTP sample_analytics sample_writer sample_request (sample_system [sample_data] Backoff) =
           Inr (\<lparr>status = 200, body = ''ok''\<rparr>, sample_request, s') \<and>
         trace s' = [Go_processingWorker, Call_next] \<and>
         request_logs s' = [] \<and> worker s' = Backoff)"
  using ServeHTTP_calls_next_once [where s = "sample_system [sample_data] Backoff"
      and a = sample_analytics and rw = sample_writer and req = sample_request
      and rw' = "\<lparr>status = 200, body = ''ok''\<rparr>" and req' = sample_request and clock = 12000000]
  by (auto simp: sample_system_def sample_analytics_def sample_handler_def sample_writer_def
      ServeHTTP_def chan_send_def Let_def)

subsection \<open>Writing a record\<close>

text \<open>
  What the worker stores when it stores a row.  Let no error come from the environment,
  let the server take the \<open>IP\<close> of the value for an address, and let its \<open>Method\<close> and
  \<open>Protocol\<close> have at most ten characters.  Then the table gains exactly one row.  Eleven
  of its columns hold the fields of the value; the column \<open>response_time\<close> holds as many
  seconds as \<open>ResponseTime\<close> counts nanoseconds.
\<close>

lemma insert_data_row:
  assumes "worker s = Draining"
    and "buf (dataChan s) = data # rest"
    and "exec_result env = None"
    and "\<not> inet_refused (IP data)"
    and "utf8_length (RequestData.Method data) \<le> 10"
    and "utf8_length (Protocol data) \<le> 10"
  shows "\<exists>s'. worker_step a env s = Some s' \<and>
           request_logs s' = request_logs s @
             [[(''ip'', Inet (IP data)),
               (''user_agent'', Text (UserAgent data)),
               (''path'', Text (Path data)),
               (''request_time'', Timestamp (Time data)),
               (''method'', Text (RequestData.Method data)),
               (''protocol'', Text (Protocol data)),
               (''host'', Text (RequestData.Host data)),
               (''accept_language'', Text (AcceptLanguage data)),
               (''referer'', Text (Referer data)),
               (''content_type'', Text (ContentType data)),
               (''content_length'', BigInt (RequestData.ContentLength data)),
               (''response_time'', Interval (ResponseTime data * 1000000000))]] \<and>
           buf (dataChan s') = rest"
proof -
  have "utf8_length (strip_spaces x) \<le> utf8_length x" for x
  proof -
    have "length (filter P (rev (dropWhile Q (rev x)))) \<le> length (filter P x)" for P Q
    proof -
      have "rev x = takeWhile Q (rev x) @ dropWhile Q (rev x)" by simp
      then have "x = rev (dropWhile Q (rev x)) @ rev (takeWhile Q (rev x))"
        by (metis rev_append rev_rev_ident)
      then have "filter P x = filter P (rev (dropWhile Q (rev x))) @ filter P (rev (takeWhile Q (rev x)))"
        by (metis filter_append)
      then show ?thesis by (metis length_append le_add1)
    qed
    then show ?thesis by (simp add: utf8_length_def strip_spaces_def)
  qed
  from this [of "RequestData.Method data"] this [of "Protocol data"] assms(5,6)
  have "\<not> 10 < utf8_length (strip_spaces (RequestData.Method data))"
    "\<not> 10 < utf8_length (strip_spaces (Protocol data))"
    "\<not> 10 < utf8_length (RequestData.Method data)"
    "\<not> 10 < utf8_length (Protocol data)"
    by simp_all
  with assms(1-4) show ?thesis
    by (simp add: worker_step_def chan_recv_def insert_data_def stmt_Exec_def bind_args_def
        exec_args_def insert_columns_def insert_placeholders_def request_logs_table_def
        Second_def)
qed

text \<open>
  Claim C8.  The claim asks that a value written through the statement gives one row
  whose twelve columns equal its twelve fields.  The code does not achieve this.  For
  the value \<open>ServeHTTP\<close> builds for a request from \<open>10.0.0.1:4711\<close>, with a
  \<open>ResponseTime\<close> of twelve milliseconds, the \<open>IP\<close> is the remote address with its port,
  which the column \<open>ip\<close> of type \<open>INET\<close> refuses: the worker logs the failure and the
  table stays empty.  For the same value with the bare address \<open>10.0.0.1\<close> the row is
  stored, and its column \<open>response_time\<close> holds twelve million seconds, not the twelve
  milliseconds of the field.
\<close>

theorem insert_diverges_from_record:
  "worker_step sample_analytics env_ok (sample_system [sample_data] Draining) =
     Some ((sample_system [] Draining)
             \<lparr>trace := [Go_processingWorker, Stmt_Exec (exec_args sample_data),
                        Log (''Failed to insert data: pq: invalid input syntax for type inet: '' @
                             [CHR 0x22] @ ''10.0.0.1:4711'' @ [CHR 0x22])]\<rparr>) \<and>
   request_logs (sample_system [] Draining) = [] \<and>
   IP sample_data = ''10.0.0.1:4711'' \<and>
   ResponseTime sample_data = 12000000 \<and>
   worker_step sample_analytics env_ok
       (sample_system [sample_data\<lparr>IP := ''10.0.0.1''\<rparr>] Draining) =
     Some ((sample_system [] Draining)
             \<lparr>trace := [Go_processingWorker,
                        Stmt_Exec (exec_args (sample_data\<lparr>IP := ''10.0.0.1''\<rparr>))],
              request_logs :=
                [[(''ip'', Inet ''10.0.0.1''), (''user_agent'', Text ''curl/8.0''),
                  (''path'', Text ''/health''), (''request_time'', Timestamp 0),
                  (''method'', Text ''GET''), (''protocol'', Text ''HTTP/1.1''),
                  (''host'', Text ''example.org''), (''accept_language'', Text ''en''),
                  (''referer'', Text ''''), (''content_type'', Text ''''),
                  (''content_length'', BigInt (- 1)),
                  (''response_time'', Interval 12000000000000000)]]\<rparr>) \<and>
   Interval 12000000000000000 \<noteq> Interval (ResponseTime sample_data)"
  by (simp add: worker_step_def chan_recv_def insert_data_def stmt_Exec_def bind_args_def
      exec_args_def insert_columns_def insert_placeholders_def request_logs_table_def
      Second_def sample_system_def sample_data_def env_ok_def inet_refused_def inet_chars_def
      utf8_length_def strip_spaces_def)

subsection \<open>Failures while draining\<close>





text \<open>
  Claim C2, as the code has it.  The loop does not look at the kind of error.  When
  executing the statement fails with an error that reports a lost connection, the
  worker does what it does for a rejected row: it logs the error and stays in the loop;
  the connection and the statement are not closed, and the state it reaches is the one
  it reaches for a row-level error with the same message.
\<close>

theorem connectivity_failure_keeps_draining:
  assumes "worker s = Draining"
    and "buf (dataChan s) = data # rest"
    and "exec_result env = Some (Err Connectivity m)"
  shows "\<exists>s'. worker_step a env s = Some s' \<and>
           worker s' = Draining \<and>
           db_open s' = db_open s \<and> stmt_open s' = stmt_open s \<and>
           trace s' = trace s @ [Stmt_Exec (exec_args data), Log (''Failed to insert data: '' @ m)] \<and>
           buf (dataChan s') = rest \<and>
           worker_step a (env\<lparr>exec_result := Some (Err RowLevel m)\<rparr>) s = Some s'"
  using assms by (simp add: worker_step_def chan_recv_def insert_data_def stmt_Exec_def)

theorem connectivity_failure_keeps_draining_witness:
  "worker (sample_system [sample_data] Draining) = Draining \<and>
   exec_result env_conn_lost = Some (Err Connectivity ''connection reset by peer'') \<and>
   (\<exists>s'. worker_step sample_analytics env_conn_lost (sample_system [sample_data] Draining) = Some s' \<and>
         worker s' = Draining \<and> db_open s' \<and> stmt_open s' \<and>
         trace s' = [Go_processingWorker, Stmt_Exec (exec_args sample_data),
                     Log ''Failed to insert data: connection reset by peer''])"
  using connectivity_failure_keeps_draining [where s = "sample_system [sample_data] Draining"
      and data = sample_data and rest = "[]" and env = env_conn_lost
      and m = "''connection reset by peer''" and a = sample_analytics]
  by (auto simp: sample_system_def env_conn_lost_def env_ok_def)

text \<open>
  The claim as it was stated fails: after a lost connection the worker is not in
  \<open>Backoff\<close>, the connection is still open and nothing has been closed.
\<close>

theorem connectivity_failure_backoff_counterexample:
  "worker_step sample_analytics env_conn_lost (sample_system [sample_data] Draining) =
     Some ((sample_system [] Draining)
             \<lparr>trace := [Go_processingWorker, Stmt_Exec (exec_args sample_data),
                        Log ''Failed to insert data: connection reset by peer'']\<rparr>) \<and>
   worker ((sample_system [] Draining)
             \<lparr>trace := [Go_processingWorker, Stmt_Exec (exec_args sample_data),
                        Log ''Failed to insert data: connection reset by peer'']\<rparr>) \<noteq> Backoff \<and>
   db_open ((sample_system [] Draining)
             \<lparr>trace := [Go_processingWorker, Stmt_Exec (exec_args sample_data),
                        Log ''Failed to insert data: connection reset by peer'']\<rparr>) \<and>
   DB_Close \<notin> set [Go_processingWorker, Stmt_Exec (exec_args sample_data),
                    Log ''Failed to insert data: connection reset by peer'']"
  by (simp add: worker_step_def chan_recv_def insert_data_def stmt_Exec_def sample_system_def
      env_conn_lost_def env_ok_def)

subsection \<open>Failures while connecting\<close>

text \<open>
  A failed attempt to connect is logged by \<open>processingWorker\<close> and leaves the worker
  about to sleep; the sleep lasts \<open>5 * time.Second\<close>, five thousand million
  nanoseconds, and leads back to connecting.
\<close>

lemma failed_attempt:
  assumes "worker s = Connecting" and "connect_fails env"
  shows "\<exists>s1 evs. worker_step a env s = Some s1 \<and> worker s1 = Backoff \<and>
           now s1 = now s \<and> request_logs s1 = request_logs s \<and> dataChan s1 = dataChan s \<and>
           trace s1 = trace s @ evs \<and>
           filter is_Open_or_Sleep evs = [Sql_Open ''postgres'' (DatabaseDSN (config a))] \<and>
           length (filter is_worker_error evs) = 1"
  using assms
  by (auto simp: worker_step_def connect_def connect_fails_def Let_def split: option.splits)

lemma backoff_step:
  assumes "worker s = Backoff"
  shows "worker_step a env s =
           Some (s\<lparr>trace := trace s @ [Sleep 5000000000], now := now s + 5000000000,
                   worker := Connecting\<rparr>)"
  using assms by (simp add: worker_step_def Second_def)

lemma failed_cycle:
  assumes "worker s = Connecting" and "connect_fails env"
  shows "\<exists>s2 evs. worker_steps a [env, env'] s = Some s2 \<and> worker s2 = Connecting \<and>
           now s2 = now s + 5000000000 \<and> request_logs s2 = request_logs s \<and>
           dataChan s2 = dataChan s \<and> trace s2 = trace s @ evs \<and>
           filter is_Open_or_Sleep evs =
             [Sql_Open ''postgres'' (DatabaseDSN (config a)), Sleep 5000000000] \<and>
           length (filter is_worker_error evs) = 1"
proof -
  from failed_attempt [OF assms, of a]
  obtain s1 evs where s1: "worker_step a env s = Some s1" "worker s1 = Backoff"
      "now s1 = now s" "request_logs s1 = request_logs s" "dataChan s1 = dataChan s"
      "trace s1 = trace s @ evs"
      "filter is_Open_or_Sleep evs = [Sql_Open ''postgres'' (DatabaseDSN (config a))]"
      "length (filter is_worker_error evs) = 1"
    by blast
  let ?s2 = "s1\<lparr>trace := trace s1 @ [Sleep 5000000000], now := now s1 + 5000000000,
                 worker := Connecting\<rparr>"
  have "worker_steps a [env, env'] s = Some ?s2"
    using s1(1) backoff_step [OF s1(2), of a env'] by simp
  moreover have "trace ?s2 = trace s @ (evs @ [Sleep 5000000000])"
    using s1 by simp
  moreover have "filter is_Open_or_Sleep (evs @ [Sleep 5000000000]) =
      [Sql_Open ''postgres'' (DatabaseDSN (config a)), Sleep 5000000000]"
    using s1 by simp
  moreover have "length (filter is_worker_error (evs @ [Sleep 5000000000])) = 1"
    using s1 by simp
  ultimately show ?thesis using s1 by (intro exI [of _ ?s2] exI [of _ "evs @ [Sleep 5000000000]"]) simp
qed

lemma worker_steps_append:
  "worker_steps a (xs @ ys) s =
     (case worker_steps a xs s of None \<Rightarrow> None | Some s' \<Rightarrow> worker_steps a ys s')"
  by (induction xs arbitrary: s) (auto split: option.splits)

text \<open>
  The worker has no final state.  It can always take a transition, unless it is
  suspended in the receive on the empty, open channel.
\<close>

lemma worker_step_suspended:
  "worker_step a env s = None \<longleftrightarrow>
     worker s = Draining \<and> buf (dataChan s) = [] \<and> \<not> closed (dataChan s)"
  by (cases "worker s")
     (auto simp: worker_step_def chan_recv_def split: option.splits list.splits prod.splits)

text \<open>
  Claim C3.  Let the worker be about to connect, and let every attempt to connect fail,
  at the open, the ping or the prepare.  Then the worker is never suspended, and after
  \<open>2 * K\<close> transitions it is about to connect again, having made \<open>K\<close> attempts and taken
  \<open>K\<close> sleeps of five seconds, attempt and sleep alternating, and having logged \<open>K\<close>
  times \<open>Worker encountered an error\<close>.  Its clock has advanced by \<open>K\<close> times five
  seconds; the table and the queue are untouched.
\<close>

theorem connect_failures_are_retried:
  assumes "worker s = Connecting"
    and "\<forall>env \<in> set envs. connect_fails env"
    and "length envs = 2 * K"
  shows "\<exists>s' evs. worker_steps a envs s = Some s' \<and>
           worker s' = Connecting \<and>
           trace s' = trace s @ evs \<and>
           filter is_Open_or_Sleep evs =
             concat (replicate K [Sql_Open ''postgres'' (DatabaseDSN (config a)), Sleep 5000000000]) \<and>
           length (filter is_worker_error evs) = K \<and>
           now s' = now s + int K * 5000000000 \<and>
           request_logs s' = request_logs s \<and>
           dataChan s' = dataChan s"
  using assms
proof (induction K arbitrary: s envs)
  case 0
  then show ?case by simp
next
  case (Suc K)
  then obtain e1 e2 rest where envs: "envs = e1 # e2 # rest"
    by (cases envs; cases "tl envs") auto
  have e1: "connect_fails e1" using Suc.prems envs by simp
  from failed_cycle [OF Suc.prems(1) e1, of a e2]
  obtain s2 evs where s2: "worker_steps a [e1, e2] s = Some s2" "worker s2 = Connecting"
      "now s2 = now s + 5000000000" "request_logs s2 = request_logs s"
      "dataChan s2 = dataChan s" "trace s2 = trace s @ evs"
      "filter is_Open_or_Sleep evs =
         [Sql_Open ''postgres'' (DatabaseDSN (config a)), Sleep 5000000000]"
      "length (filter is_worker_error evs) = 1"
    by blast
  have rest: "\<forall>env \<in> set rest. connect_fails env" "length rest = 2 * K"
    using Suc.prems envs by simp_all
  from Suc.IH [OF s2(2) rest]
  obtain s3 evs' where s3: "worker_steps a rest s2 = Some s3" "worker s3 = Connecting"
      "trace s3 = trace s2 @ evs'"
      "filter is_Open_or_Sleep evs' =
         concat (replicate K [Sql_Open ''postgres'' (DatabaseDSN (config a)), Sleep 5000000000])"
      "length (filter is_worker_error evs') = K"
      "now s3 = now s2 + int K * 5000000000" "request_logs s3 = request_logs s2"
      "dataChan s3 = dataChan s2"
    by blast
  have "worker_steps a envs s = Some s3"
    using worker_steps_append [of a "[e1, e2]" rest s] s2(1) s3(1) envs by simp
  moreover have "trace s3 = trace s @ (evs @ evs')" using s2 s3 by simp
  moreover have "filter is_Open_or_Sleep (evs @ evs') =
      concat (replicate (Suc K) [Sql_Open ''postgres'' (DatabaseDSN (config a)), Sleep 5000000000])"
    using s2 s3 by simp
  moreover have "length (filter is_worker_error (evs @ evs')) = Suc K"
    using s2 s3 by simp
  moreover have "now s3 = now s + int (Suc K) * 5000000000"
    using s2 s3 by (simp add: algebra_simps)
  ultimately show ?case using s2 s3
    by (intro exI [of _ s3] exI [of _ "evs @ evs'"]) simp
qed

theorem connect_failures_are_retried_witness:
  "worker (sample_system [sample_data] Connecting) = Connecting \<and>
   connect_fails env_open_fails \<and> connect_fails env_ping_fails \<and>
   length [env_open_fails, env_open_fails, env_ping_fails, env_ping_fails] = 2 * 2 \<and>
   worker_steps sample_analytics [env_open_fails, env_open_fails, env_ping_fails, env_ping_fails]
       (sample_system [sample_data] Connecting) =
     Some ((sample_system [sample_data] Connecting)
             \<lparr>now := 10000000000,
              trace := [Go_processingWorker,
                Sql_Open ''postgres'' ''postgres://analytics@db/logs'',
                Log ''Worker encountered an error: failed to connect to database: connection refused'',
                Sleep 5000000000,
                Sql_Open ''postgres'' ''postgres://analytics@db/logs'', DB_Ping, DB_Close,
                Log ''Worker encountered an error: failed to ping database: timeout'',
                Sleep 5000000000]\<rparr>)"
  using connect_failures_are_retried [where s = "sample_system [sample_data] Connecting"
      and envs = "[env_open_fails, env_open_fails, env_ping_fails, env_ping_fails]" and K = 2
      and a = sample_analytics]
  by (simp add: sample_system_def sample_analytics_def sample_config_def env_open_fails_def
      env_ping_fails_def env_ok_def connect_fails_def worker_step_def connect_def Second_def)

subsection \<open>The queue\<close>

text \<open>
  Whatever sends and receives are made on a channel, the values delivered followed by
  the values still buffered are the values that were buffered at the start followed by
  the values accepted since, in the order they were accepted.
\<close>

lemma chan_run_fifo:
  assumes "chan_run c ops = (acc, del, c')" and "length (buf c) \<le> cap c"
  shows "del @ buf c' = buf c @ acc \<and> cap c' = cap c \<and> closed c' = closed c \<and>
         length (buf c') \<le> cap c"
  using assms
proof (induction c ops arbitrary: acc del c' rule: chan_run.induct)
  case (1 c)
  then show ?case by simp
next
  case (2 c x ops)
  show ?case
  proof (cases "chan_send c x")
    case (Ready c1)
    then have c1: "c1 = c\<lparr>buf := buf c @ [x]\<rparr>" "length (buf c) < cap c"
      by (auto simp: chan_send_def split: if_splits)
    from "2.prems" Ready obtain acc1 where r: "chan_run c1 ops = (acc1, del, c')" "acc = x # acc1"
      by (auto split: prod.splits)
    from "2.IH"(1) [OF Ready r(1)] c1 r(2) show ?thesis by simp
  next
    case WouldBlock
    with "2.prems" "2.IH"(2) show ?thesis by simp
  next
    case ClosedChan
    with "2.prems" "2.IH"(3) show ?thesis by simp
  qed
next
  case (3 c ops)
  show ?case
  proof (cases "chan_recv c")
    case (Ready p)
    obtain x c1 where p: "p = (x, c1)" by (cases p)
    with Ready have c1: "buf c = x # buf c1" "cap c1 = cap c" "closed c1 = closed c"
      by (auto simp: chan_recv_def split: list.splits if_splits)
    from "3.prems" Ready p obtain del1 where r: "chan_run c1 ops = (acc, del1, c')" "del = x # del1"
      by (auto split: prod.splits)
    have "length (buf c1) \<le> cap c1" using c1 "3.prems" by simp
    from "3.IH"(1) [OF Ready p [symmetric] r(1) this] c1 r(2) show ?thesis by simp
  next
    case WouldBlock
    with "3.prems" "3.IH"(2) show ?thesis by simp
  next
    case ClosedChan
    with "3.prems" "3.IH"(3) show ?thesis by simp
  qed
qed

text \<open>
  Claim C5.  Take the channel \<open>New\<close> makes, after any sends and receives.  Its capacity
  is 1000 and it holds at most 1000 values.  The values delivered so far followed by the
  values it holds are exactly the values it accepted, in the order of acceptance: none
  lost, repeated or moved.  A send is accepted, and the value put last, exactly when
  fewer than 1000 values are held; otherwise it is refused at once and the channel is
  unchanged.  A receive takes the value that has been held longest.
\<close>

theorem dataChan_bounded_fifo:
  assumes "New nxt cfg nm w = Inr (a, s)"
    and "chan_run (dataChan s) ops = (accepted, delivered, c)"
  shows "cap c = 1000 \<and> \<not> closed c \<and> length (buf c) \<le> 1000 \<and>
         delivered @ buf c = accepted \<and>
         chan_send c x =
           (if length (buf c) < 1000 then Ready (c\<lparr>buf := buf c @ [x]\<rparr>) else WouldBlock) \<and>
         chan_recv c =
           (case buf c of [] \<Rightarrow> WouldBlock | y # ys \<Rightarrow> Ready (y, c\<lparr>buf := ys\<rparr>))"
proof -
  from assms(1) have c0: "dataChan s = \<lparr>buf = [], cap = 1000, closed = False\<rparr>"
    by (auto simp: New_def make_chan_def split: if_splits)
  from chan_run_fifo [OF assms(2)] c0
  have "delivered @ buf c = accepted" "cap c = 1000" "\<not> closed c" "length (buf c) \<le> 1000"
    by simp_all
  then show ?thesis
    by (simp add: chan_send_def chan_recv_def split: list.splits)
qed

theorem dataChan_bounded_fifo_witness:
  "New sample_handler sample_config ''analytics'' sample_world =
     Inr (sample_analytics,
          \<lparr>now = 0, request_logs = [], trace = [Go_processingWorker],
           dataChan = \<lparr>buf = [], cap = 1000, closed = False\<rparr>, worker = Connecting,
           db_open = False, stmt_open = False\<rparr>) \<and>
   chan_run \<lparr>buf = [], cap = 1000, closed = False\<rparr>
       [Receive, Try_send sample_data, Try_send (sample_data\<lparr>Path := ''/next''\<rparr>), Receive] =
     ([sample_data, sample_data\<lparr>Path := ''/next''\<rparr>], [sample_data],
      \<lparr>buf = [sample_data\<lparr>Path := ''/next''\<rparr>], cap = 1000, closed = False\<rparr>) \<and>
   chan_send \<lparr>buf = [sample_data\<lparr>Path := ''/next''\<rparr>], cap = 1000, closed = False\<rparr> sample_data =
     Ready \<lparr>buf = [sample_data\<lparr>Path := ''/next''\<rparr>, sample_data], cap = 1000, closed = False\<rparr> \<and>
   chan_recv \<lparr>buf = [sample_data\<lparr>Path := ''/next''\<rparr>], cap = 1000, closed = False\<rparr> =
     Ready (sample_data\<lparr>Path := ''/next''\<rparr>, \<lparr>buf = [], cap = 1000, closed = False\<rparr>)"
  using dataChan_bounded_fifo [where nxt = sample_handler and cfg = sample_config
      and nm = "''analytics''" and w = sample_world and a = sample_analytics
      and s = "\<lparr>now = 0, request_logs = [], trace = [Go_processingWorker],
           dataChan = \<lparr>buf = [], cap = 1000, closed = False\<rparr>, worker = Connecting,
           db_open = False, stmt_open = False\<rparr>"
      and ops = "[Receive, Try_send sample_data, Try_send (sample_data\<lparr>Path := ''/next''\<rparr>), Receive]"
      and accepted = "[sample_data, sample_data\<lparr>Path := ''/next''\<rparr>]"
      and delivered = "[sample_data]"
      and c = "\<lparr>buf = [sample_data\<lparr>Path := ''/next''\<rparr>], cap = 1000, closed = False\<rparr>"
      and x = sample_data]
  by (simp add: New_def make_chan_def sample_config_def sample_world_def sample_analytics_def
      chan_send_def chan_recv_def)

subsection \<open>The life of the worker\<close>

text \<open>
  Neither \<open>ServeHTTP\<close> nor the worker closes the channel or, while it is open, the
  statement; a worker that is draining stays draining.
\<close>

lemma ServeHTTP_frame:
  assumes "\<not> closed (dataChan s)"
  shows "\<exists>rw' req' s'. ServeHTTP a rw req s = Inr (rw', req', s') \<and>
           \<not> closed (dataChan s') \<and> worker s' = worker s \<and>
           db_open s' = db_open s \<and> stmt_open s' = stmt_open s \<and>
           filter (\<lambda>e. e = Stmt_Close) (trace s') = filter (\<lambda>e. e = Stmt_Close) (trace s)"
proof -
  obtain rw' req' clock where "next_handler a rw req (now s) = (rw', req', clock)"
    by (cases "next_handler a rw req (now s)")
  with assms show ?thesis
    by (cases "length (buf (dataChan s)) < cap (dataChan s)")
       (simp_all add: ServeHTTP_def chan_send_def Let_def)
qed

lemma worker_step_open:
  assumes "\<not> closed (dataChan s)" and "worker_step a env s = Some s'"
  shows "\<not> closed (dataChan s') \<and>
         filter (\<lambda>e. e = Stmt_Close) (trace s') = filter (\<lambda>e. e = Stmt_Close) (trace s) \<and>
         (worker s = Draining \<longrightarrow>
            worker s' = Draining \<and> db_open s' = db_open s \<and> stmt_open s' = stmt_open s) \<and>
         (worker s' = Draining \<longrightarrow> worker s = Draining \<or> db_open s' \<and> stmt_open s')"
  using assms
  by (cases "worker s")
     (auto simp: worker_step_def connect_def chan_recv_def insert_data_def Let_def
           split: option.splits list.splits sum.splits)

lemma run_inv:
  assumes "drain_inv tr s"
  shows "\<exists>s'. run a acts s = Inr s' \<and> drain_inv tr s' \<and>
           (worker s = Draining \<longrightarrow> worker s' = Draining)"
  using assms
proof (induction acts arbitrary: s)
  case Nil
  then show ?case by simp
next
  case (Cons act acts)
  show ?case
  proof (cases act)
    case (Serve rw req)
    from ServeHTTP_frame [of s a rw req] Cons.prems
    obtain rw' req' s1 where s1: "ServeHTTP a rw req s = Inr (rw', req', s1)"
        "drain_inv tr s1" "worker s1 = worker s"
      by (auto simp: drain_inv_def)
    from Cons.IH [OF s1(2)] s1 Serve show ?thesis by auto
  next
    case (Work env)
    show ?thesis
    proof (cases "worker_step a env s")
      case None
      with Cons.IH [OF Cons.prems] Work show ?thesis by simp
    next
      case (Some s1)
      from worker_step_open [OF _ Some] Cons.prems
      have s1: "drain_inv tr s1" "worker s = Draining \<longrightarrow> worker s1 = Draining"
        by (auto simp: drain_inv_def)
      from Cons.IH [OF s1(1)] s1(2) Some Work show ?thesis by auto
    qed
  qed
qed

lemma run_append:
  "run a (xs @ ys) s = (case run a xs s of Inl p \<Rightarrow> Inl p | Inr s' \<Rightarrow> run a ys s')"
proof (induction xs arbitrary: s)
  case Nil
  then show ?case by simp
next
  case (Cons x xs)
  then show ?case by (cases x) (auto split: sum.splits option.splits)
qed

text \<open>
  Claim C10.  Start the plugin with \<open>New\<close> and let requests and the worker run in any
  order.  Once the worker is draining, it is draining after whatever follows: the
  channel is never closed, the connection and the statement stay open, and the statement
  has never been closed since \<open>New\<close>, which it would be on the \<open>nil\<close> return of
  \<open>runWorker\<close>.  So the loop is never left and the worker never connects again.
\<close>

theorem drain_loop_never_ends:
  assumes "New nxt cfg nm w = Inr (a, s0)"
    and "run a pre s0 = Inr s"
    and "worker s = Draining"
  shows "\<exists>s'. run a (pre @ post) s0 = Inr s' \<and>
           worker s' = Draining \<and>
           \<not> closed (dataChan s') \<and>
           db_open s' \<and> stmt_open s' \<and>
           filter (\<lambda>e. e = Stmt_Close) (trace s') = filter (\<lambda>e. e = Stmt_Close) (trace w)"
proof -
  let ?tr = "filter (\<lambda>e. e = Stmt_Close) (trace w)"
  from assms(1) have "drain_inv ?tr s0"
    by (auto simp: New_def make_chan_def drain_inv_def split: if_splits)
  from run_inv [OF this, of a pre] assms(2) have inv: "drain_inv ?tr s" by auto
  from run_inv [OF inv, of a post] assms(3)
  obtain s' where "run a post s = Inr s'" "drain_inv ?tr s'" "worker s' = Draining"
    by auto
  then show ?thesis using assms(2) by (auto simp: run_append drain_inv_def)
qed

theorem drain_loop_never_ends_witness:
  "(\<exists>s0 s. New sample_handler sample_config ''analytics'' sample_world = Inr (sample_analytics, s0) \<and>
      run sample_analytics [Work env_open_fails, Work env_ok, Work env_ok] s0 = Inr s \<and>
      worker s = Draining \<and>
      (\<exists>s'. run sample_analytics
               ([Work env_open_fails, Work env_ok, Work env_ok] @
                [Work env_ok, Serve sample_writer sample_request, Work env_conn_lost, Work env_ok]) s0 = Inr s' \<and>
             worker s' = Draining \<and> db_open s' \<and> stmt_open s' \<and>
             filter (\<lambda>e. e = Stmt_Close) (trace s') = []))"
proof -
  let ?init = "\<lparr>now = 0, request_logs = [], trace = [Go_processingWorker],
           dataChan = make_chan 1000, worker = Connecting,
           db_open = False, stmt_open = False\<rparr>"
  let ?drn = "\<lparr>now = 5000000000, request_logs = [],
      trace = [Go_processingWorker, Sql_Open ''postgres'' ''postgres://analytics@db/logs'',
        Log ''Worker encountered an error: failed to connect to database: connection refused'',
        Sleep 5000000000, Sql_Open ''postgres'' ''postgres://analytics@db/logs'', DB_Ping, DB_Prepare],
      dataChan = make_chan 1000, worker = Draining, db_open = True, stmt_open = True\<rparr>"
  have new: "New sample_handler sample_config ''analytics'' sample_world = Inr (sample_analytics, ?init)"
    by (simp add: New_def sample_config_def sample_world_def sample_analytics_def)
  have pre: "run sample_analytics [Work env_open_fails, Work env_ok, Work env_ok] ?init = Inr ?drn"
    by (simp add: worker_step_def connect_def sample_analytics_def sample_config_def
        env_open_fails_def env_ok_def Second_def Let_def)
  have dr: "worker ?drn = Draining" by simp
  from drain_loop_never_ends [OF new pre dr,
      of "[Work env_ok, Serve sample_writer sample_request, Work env_conn_lost, Work env_ok]"]
  have "\<exists>s'. run sample_analytics
               ([Work env_open_fails, Work env_ok, Work env_ok] @
                [Work env_ok, Serve sample_writer sample_request, Work env_conn_lost, Work env_ok]) ?init = Inr s' \<and>
             worker s' = Draining \<and> db_open s' \<and> stmt_open s' \<and>
             filter (\<lambda>e. e = Stmt_Close) (trace s') = []"
    by (auto simp: sample_world_def)
  with new pre dr show ?thesis by blast
qed

end
